theory Spec2Isabelle
  imports Complex_Main
begin

section \<open>Data model\<close>

text \<open>
  The program is the multi-tenant matching pipeline sketched in Python in
  \<^verbatim>\<open>POC_Scope.md\<close>, with its tables. Python objects become records; a nullable
  column or attribute is an \<open>option\<close>, \<open>None\<close> being SQL's NULL and Python's None.

  \<^verbatim>\<open>listings\<close>: \<^verbatim>\<open>price integer not null\<close>, \<^verbatim>\<open>rooms decimal(2,1)\<close>,
  \<^verbatim>\<open>size_sqm integer\<close>, \<^verbatim>\<open>district varchar(100)\<close>, and the three amenity columns
  \<^verbatim>\<open>pet_friendly\<close>, \<^verbatim>\<open>balcony\<close>, \<^verbatim>\<open>furnished\<close>, nullable booleans. The code reads
  \<^verbatim>\<open>listing.location\<close> in the hard filter and \<^verbatim>\<open>listing.district\<close> in the score and
  in the candidate lookup, so the record has both attributes.
\<close>

record listing =
  external_id :: string
  price :: int
  rooms :: rat
  size_sqm :: int
  location :: string
  district :: string
  pet_friendly :: "bool option"
  balcony :: "bool option"
  furnished :: "bool option"

text \<open>
  \<^verbatim>\<open>user_preferences\<close>: every column but \<^verbatim>\<open>user_id\<close> is nullable. The attributes
  \<^verbatim>\<open>top_preferred_districts\<close>, \<^verbatim>\<open>acceptable_districts\<close> and \<^verbatim>\<open>ideal_rooms\<close> are
  read by \<^verbatim>\<open>calculate_match_score\<close> only. The amenity wishes carry the prefix
  \<open>want_\<close> where the column name is the listing's too.
\<close>

record preferences =
  price_min :: "int option"
  price_max :: "int option"
  ideal_price :: "int option"
  preferred_districts :: "string list"
  top_preferred_districts :: "string list"
  acceptable_districts :: "string list"
  min_rooms :: "int option"
  max_rooms :: "int option"
  ideal_rooms :: "rat option"
  min_size_sqm :: "int option"
  want_pet_friendly :: "bool option"
  balcony_required :: "bool option"
  want_furnished :: "bool option"

section \<open>UserPreferenceEngine\<close>

text \<open>
  \<^verbatim>\<open>listing_matches_preferences\<close> and \<^verbatim>\<open>calculate_match_score\<close> call five methods
  of \<^verbatim>\<open>self\<close> that no source file defines: \<^verbatim>\<open>price_in_range\<close>,
  \<^verbatim>\<open>location_matches\<close>, \<^verbatim>\<open>size_matches\<close>, \<^verbatim>\<open>additional_criteria_match\<close> and
  \<^verbatim>\<open>count_amenity_matches\<close>. The engine object is a record of these five methods,
  each with the arguments its call site passes, so that what the two methods in the
  source do is stated for every implementation of the missing ones. A count is a
  natural number.
\<close>

record engine =
  price_in_range :: "int \<Rightarrow> int option \<Rightarrow> int option \<Rightarrow> bool"
  location_matches :: "string \<Rightarrow> string list \<Rightarrow> bool"
  size_matches :: "rat \<Rightarrow> int \<Rightarrow> preferences \<Rightarrow> bool"
  additional_criteria_match :: "listing \<Rightarrow> preferences \<Rightarrow> bool"
  count_amenity_matches :: "listing \<Rightarrow> preferences \<Rightarrow> nat"

text \<open>
  \<^verbatim>\<open>
  def listing_matches_preferences(self, listing, preferences):
      if not self.price_in_range(listing.price, preferences.price_min, preferences.price_max):
          return False
      if not self.location_matches(listing.location, preferences.preferred_districts):
          return False
      if not self.size_matches(listing.rooms, listing.size_sqm, preferences):
          return False
      if not self.additional_criteria_match(listing, preferences):
          return False
      return True
  \<close>
\<close>

definition listing_matches_preferences :: "engine \<Rightarrow> listing \<Rightarrow> preferences \<Rightarrow> bool" where
  "listing_matches_preferences self l p =
     (if \<not> price_in_range self (price l) (price_min p) (price_max p) then False
      else if \<not> location_matches self (location l) (preferred_districts p) then False
      else if \<not> size_matches self (rooms l) (size_sqm l) p then False
      else if \<not> additional_criteria_match self l p then False
      else True)"

text \<open>
  The four increments of \<^verbatim>\<open>calculate_match_score\<close>, in the order of the source.

  \<^verbatim>\<open>
  if preferences.ideal_price:
      price_diff = abs(listing.price - preferences.ideal_price)
      price_score = max(0, 100 - (price_diff / preferences.ideal_price * 100))
      score += price_score * 0.3
  \<close>
  Python's truth test skips the block for None and for 0. The division is Python's
  true division and \<^verbatim>\<open>0.3\<close> a binary64 constant; the model computes in exact
  rationals, with \<open>3 / 10\<close> for the constant.
\<close>

definition price_points :: "listing \<Rightarrow> preferences \<Rightarrow> rat" where
  "price_points l p =
     (case ideal_price p of
        None \<Rightarrow> 0
      | Some ip \<Rightarrow>
          if ip = 0 then 0
          else
            let price_diff = \<bar>price l - ip\<bar>;
                price_score = max 0 (100 - (of_int price_diff / of_int ip * 100))
            in price_score * (3 / 10))"

text \<open>
  \<^verbatim>\<open>
  if listing.district in preferences.top_preferred_districts:
      score += 30
  elif listing.district in preferences.acceptable_districts:
      score += 15
  \<close>
\<close>

definition district_points :: "listing \<Rightarrow> preferences \<Rightarrow> rat" where
  "district_points l p =
     (if district l \<in> set (top_preferred_districts p) then 30
      else if district l \<in> set (acceptable_districts p) then 15
      else 0)"

text \<open>
  \<^verbatim>\<open>
  if preferences.ideal_rooms and listing.rooms == preferences.ideal_rooms:
      score += 20
  \<close>
\<close>

definition room_points :: "listing \<Rightarrow> preferences \<Rightarrow> rat" where
  "room_points l p =
     (case ideal_rooms p of
        None \<Rightarrow> 0
      | Some r \<Rightarrow> if r \<noteq> 0 \<and> rooms l = r then 20 else 0)"

text \<open>
  \<^verbatim>\<open>
  amenity_matches = self.count_amenity_matches(listing, preferences)
  score += amenity_matches * 5
  \<close>
\<close>

definition amenity_points :: "engine \<Rightarrow> listing \<Rightarrow> preferences \<Rightarrow> rat" where
  "amenity_points self l p = of_nat (count_amenity_matches self l p) * 5"

text \<open>
  \<^verbatim>\<open>
  def calculate_match_score(self, listing, preferences):
      score = 0
      ...the four increments...
      return min(100, score)
  \<close>
\<close>

definition calculate_match_score :: "engine \<Rightarrow> listing \<Rightarrow> preferences \<Rightarrow> rat" where
  "calculate_match_score self l p =
     (let score = 0;
          score = score + price_points l p;
          score = score + district_points l p;
          score = score + room_points l p;
          score = score + amenity_points self l p
      in min 100 score)"

text \<open>
  \<^verbatim>\<open>find_matching_users\<close> scores a user only after the hard filter accepted the pair:
  \<^verbatim>\<open>
  for user_id, preferences in user_preferences.items():
      if self.listing_matches_preferences(listing, preferences):
          matching_users.append({'user_id': user_id, 'preferences': preferences,
              'match_score': self.calculate_match_score(listing, preferences)})
  \<close>
  \<open>score\<close> is the body of that loop for one pair: excluded, or the score.
\<close>

datatype match_result = Excluded | Scored rat

definition score :: "engine \<Rightarrow> listing \<Rightarrow> preferences \<Rightarrow> match_result" where
  "score self l p =
     (if listing_matches_preferences self l p then Scored (calculate_match_score self l p)
      else Excluded)"

fun find_matching_users ::
  "engine \<Rightarrow> listing \<Rightarrow> (int \<times> preferences) list \<Rightarrow> (int \<times> preferences \<times> rat) list" where
  "find_matching_users self l [] = []"
| "find_matching_users self l ((user_id, p) # rest) =
     (if listing_matches_preferences self l p
      then (user_id, p, calculate_match_score self l p) # find_matching_users self l rest
      else find_matching_users self l rest)"

subsection \<open>The five missing methods\<close>

text \<open>
  Modelled from the spec: \<^verbatim>\<open>price_in_range\<close> is called by
  \<^verbatim>\<open>listing_matches_preferences\<close> and defined in no source file. The spec (4.3)
  excludes a pair when the price is outside \<open>[min, max]\<close>; a bound that is not set
  cannot be violated.
\<close>

definition spec_price_in_range :: "int \<Rightarrow> int option \<Rightarrow> int option \<Rightarrow> bool" where
  "spec_price_in_range p lo hi =
     ((case lo of None \<Rightarrow> True | Some a \<Rightarrow> a \<le> p) \<and>
      (case hi of None \<Rightarrow> True | Some b \<Rightarrow> p \<le> b))"

text \<open>
  Modelled from the spec: \<^verbatim>\<open>location_matches\<close> is called by
  \<^verbatim>\<open>listing_matches_preferences\<close> on \<^verbatim>\<open>listing.location\<close> and
  \<^verbatim>\<open>preferences.preferred_districts\<close> and defined in no source file. The spec (4.3)
  names no district among its hard exclusion filters and (9) treats a district the
  user did not list as a soft zero of the score, not as an exclusion: the check
  rejects nothing.
\<close>

definition spec_location_matches :: "string \<Rightarrow> string list \<Rightarrow> bool" where
  "spec_location_matches loc districts = True"

text \<open>
  Modelled from the spec: \<^verbatim>\<open>size_matches\<close> is called by
  \<^verbatim>\<open>listing_matches_preferences\<close> and defined in no source file. The spec (4.3)
  excludes on rooms below \<^verbatim>\<open>min_rooms\<close> or above \<^verbatim>\<open>max_rooms\<close> when both are set,
  and on size below \<^verbatim>\<open>min_size_sqm\<close>.
\<close>

definition spec_size_matches :: "rat \<Rightarrow> int \<Rightarrow> preferences \<Rightarrow> bool" where
  "spec_size_matches r sz p =
     ((case (min_rooms p, max_rooms p) of
         (Some a, Some b) \<Rightarrow> of_int a \<le> r \<and> r \<le> of_int b
       | _ \<Rightarrow> True) \<and>
      (case min_size_sqm p of None \<Rightarrow> True | Some m \<Rightarrow> m \<le> sz))"

text \<open>
  Modelled from the spec: \<^verbatim>\<open>additional_criteria_match\<close> is called by
  \<^verbatim>\<open>listing_matches_preferences\<close> and defined in no source file. The spec (4.3)
  excludes on any amenity where the preference requires true or false and the listing
  states the opposite; unspecified on either side never excludes.
\<close>

definition amenity_conflict :: "bool option \<Rightarrow> bool option \<Rightarrow> bool" where
  "amenity_conflict want have =
     (case (want, have) of (Some w, Some h) \<Rightarrow> w \<noteq> h | _ \<Rightarrow> False)"

definition spec_additional_criteria_match :: "listing \<Rightarrow> preferences \<Rightarrow> bool" where
  "spec_additional_criteria_match l p =
     (\<not> amenity_conflict (want_pet_friendly p) (pet_friendly l) \<and>
      \<not> amenity_conflict (balcony_required p) (balcony l) \<and>
      \<not> amenity_conflict (want_furnished p) (furnished l))"

text \<open>
  Modelled from the spec: \<^verbatim>\<open>count_amenity_matches\<close> is called by
  \<^verbatim>\<open>calculate_match_score\<close> and defined in no source file. The spec (4.3) gives
  points per satisfied optional amenity; the amenities are the three flags of the data
  model (3), and one is satisfied when the preference states a value and the listing
  states the same value.
\<close>

definition amenity_satisfied :: "bool option \<Rightarrow> bool option \<Rightarrow> bool" where
  "amenity_satisfied want have =
     (case (want, have) of (Some w, Some h) \<Rightarrow> w = h | _ \<Rightarrow> False)"

definition spec_count_amenity_matches :: "listing \<Rightarrow> preferences \<Rightarrow> nat" where
  "spec_count_amenity_matches l p =
     (if amenity_satisfied (want_pet_friendly p) (pet_friendly l) then 1 else 0) +
     (if amenity_satisfied (balcony_required p) (balcony l) then 1 else 0) +
     (if amenity_satisfied (want_furnished p) (furnished l) then 1 else 0)"

definition spec_engine :: engine where
  "spec_engine =
     \<lparr>price_in_range = spec_price_in_range,
      location_matches = spec_location_matches,
      size_matches = spec_size_matches,
      additional_criteria_match = spec_additional_criteria_match,
      count_amenity_matches = spec_count_amenity_matches\<rparr>"

section \<open>OptimizedMatcher\<close>

text \<open>
  \<^verbatim>\<open>build_user_indexes\<close> keys the price index by the string
  \<^verbatim>\<open>f"{user.price_min}-{user.price_max}"\<close>, and \<^verbatim>\<open>get_candidate_users\<close> reads the
  bounds back with \<^verbatim>\<open>map(int, price_range.split('-'))\<close>. The model keeps the strings.

  \<open>py_str\<close> is Python's formatting of an integer or of None: decimal digits, with a
  leading minus sign for a negative number.
\<close>

definition digit_char :: "nat \<Rightarrow> char" where
  "digit_char d = char_of (48 + d)"

fun str_nat :: "nat \<Rightarrow> string" where
  "str_nat n = (if n < 10 then [digit_char n] else str_nat (n div 10) @ [digit_char (n mod 10)])"

declare str_nat.simps [simp del]

definition py_str :: "int option \<Rightarrow> string" where
  "py_str v =
     (case v of
        None \<Rightarrow> ''None''
      | Some i \<Rightarrow> if i < 0 then CHR ''-'' # str_nat (nat (- i)) else str_nat (nat i))"

definition price_key :: "preferences \<Rightarrow> string" where
  "price_key p = py_str (price_min p) @ ''-'' @ py_str (price_max p)"

text \<open>\<^verbatim>\<open>s.split('-')\<close>: the pieces between the minus signs, empty pieces included.\<close>

fun split_dash :: "string \<Rightarrow> string list" where
  "split_dash [] = [[]]"
| "split_dash (c # cs) =
     (if c = CHR ''-'' then [] # split_dash cs
      else (case split_dash cs of
              [] \<Rightarrow> [[c]]
            | w # ws \<Rightarrow> (c # w) # ws))"

text \<open>
  \<^verbatim>\<open>int(s)\<close> on a piece of a key. A piece holds no minus sign, and the pieces of the
  keys \<^verbatim>\<open>build_user_indexes\<close> writes are runs of decimal digits, the empty string and
  \<^verbatim>\<open>None\<close>: Python reads the first as the number and raises ValueError on the other
  two. (Python's \<^verbatim>\<open>int\<close> also accepts blanks, a plus sign and underscores, which no
  key holds.)
\<close>

datatype error = ValueError

definition is_digit :: "char \<Rightarrow> bool" where
  "is_digit c = (48 \<le> (of_char c :: nat) \<and> (of_char c :: nat) \<le> 57)"

definition digit_val :: "char \<Rightarrow> int" where
  "digit_val c = int (of_char c) - 48"

definition py_int :: "string \<Rightarrow> error + int" where
  "py_int s =
     (if s \<noteq> [] \<and> list_all is_digit s
      then Inr (foldl (\<lambda>acc c. 10 * acc + digit_val c) 0 s)
      else Inl ValueError)"

text \<open>
  \<^verbatim>\<open>min_price, max_price = map(int, price_range.split('-'))\<close>: unpacking raises
  ValueError unless there are exactly two pieces, and \<^verbatim>\<open>int\<close> raises it on a piece
  that is no number.
\<close>

definition parse_price_range :: "string \<Rightarrow> error + (int \<times> int)" where
  "parse_price_range price_range =
     (case split_dash price_range of
        [a, b] \<Rightarrow>
          (case py_int a of
             Inl e \<Rightarrow> Inl e
           | Inr min_price \<Rightarrow>
               (case py_int b of
                  Inl e \<Rightarrow> Inl e
                | Inr max_price \<Rightarrow> Inr (min_price, max_price)))
      | _ \<Rightarrow> Inl ValueError)"

text \<open>
  The two indexes are \<^verbatim>\<open>defaultdict(list)\<close>: association lists in insertion order.
  \<open>dd_append k v\<close> is \<^verbatim>\<open>index[k].append(v)\<close>.
\<close>

fun dd_append :: "'k \<Rightarrow> 'v \<Rightarrow> ('k \<times> 'v list) list \<Rightarrow> ('k \<times> 'v list) list" where
  "dd_append k v [] = [(k, [v])]"
| "dd_append k v ((k', vs) # rest) =
     (if k = k' then (k', vs @ [v]) # rest else (k', vs) # dd_append k v rest)"

record matcher =
  price_index :: "(string \<times> int list) list"
  district_index :: "(string \<times> int list) list"

text \<open>
  \<^verbatim>\<open>
  for user in users:
      price_key = f"{user.price_min}-{user.price_max}"
      self.price_index[price_key].append(user.id)
      for district in user.preferred_districts:
          self.district_index[district].append(user.id)
  \<close>
  A user is the pair of \<^verbatim>\<open>user.id\<close> and the preference attributes, as in
  \<^verbatim>\<open>find_matching_users\<close>.
\<close>

definition index_user :: "int \<times> preferences \<Rightarrow> matcher \<Rightarrow> matcher" where
  "index_user u m =
     \<lparr>price_index = dd_append (price_key (snd u)) (fst u) (price_index m),
      district_index =
        fold (\<lambda>d ix. dd_append d (fst u) ix) (preferred_districts (snd u)) (district_index m)\<rparr>"

definition build_user_indexes :: "(int \<times> preferences) list \<Rightarrow> matcher" where
  "build_user_indexes users = fold index_user users \<lparr>price_index = [], district_index = []\<rparr>"

text \<open>
  \<^verbatim>\<open>
  candidate_users = set()
  for price_range, user_ids in self.price_index.items():
      min_price, max_price = map(int, price_range.split('-'))
      if min_price <= listing.price <= max_price:
          candidate_users.update(user_ids)
  if listing.district in self.district_index:
      candidate_users.update(self.district_index[listing.district])
  return list(candidate_users)
  \<close>
  The result is the set; the order of \<^verbatim>\<open>list(candidate_users)\<close> is not modelled.
\<close>

fun scan_price_index :: "int \<Rightarrow> (string \<times> int list) list \<Rightarrow> int set \<Rightarrow> error + int set" where
  "scan_price_index pr [] candidate_users = Inr candidate_users"
| "scan_price_index pr ((price_range, user_ids) # rest) candidate_users =
     (case parse_price_range price_range of
        Inl e \<Rightarrow> Inl e
      | Inr (min_price, max_price) \<Rightarrow>
          scan_price_index pr rest
            (if min_price \<le> pr \<and> pr \<le> max_price then candidate_users \<union> set user_ids
             else candidate_users))"

definition get_candidate_users :: "matcher \<Rightarrow> listing \<Rightarrow> error + int set" where
  "get_candidate_users m l =
     (case scan_price_index (price l) (price_index m) {} of
        Inl e \<Rightarrow> Inl e
      | Inr candidate_users \<Rightarrow>
          (case map_of (district_index m) (district l) of
             Some user_ids \<Rightarrow> Inr (candidate_users \<union> set user_ids)
           | None \<Rightarrow> Inr candidate_users))"

section \<open>UserNotificationSystem\<close>

text \<open>
  \<^verbatim>\<open>notify_user_of_match\<close> reads three attributes of the user: the channel names,
  \<^verbatim>\<open>auto_apply_enabled\<close> and \<^verbatim>\<open>auto_apply_threshold\<close>
  (\<^verbatim>\<open>integer default 80\<close>).
\<close>

record user =
  notification_methods :: "string list"
  auto_apply_enabled :: bool
  auto_apply_threshold :: int

text \<open>
  What one call does: the notification tasks it gathers, in the order it appends them,
  and whether it calls \<^verbatim>\<open>trigger_auto_application\<close>.
\<close>

datatype notification =
  send_email_notification | send_push_notification | send_sms_notification

record dispatch =
  notification_tasks :: "notification list"
  auto_application :: bool

text \<open>
  \<^verbatim>\<open>
  notification_tasks = []
  if 'email' in user.notification_methods:
      notification_tasks.append(self.send_email_notification(user, listing, match_score))
  if 'push' in user.notification_methods:
      notification_tasks.append(self.send_push_notification(user, listing, match_score))
  if 'sms' in user.notification_methods and match_score > 80:
      notification_tasks.append(self.send_sms_notification(user, listing, match_score))
  await asyncio.gather(*notification_tasks)
  if user.auto_apply_enabled and match_score >= user.auto_apply_threshold:
      await self.trigger_auto_application(user, listing)
  \<close>
  The user is the one \<^verbatim>\<open>get_user(user_id)\<close> returned.
\<close>

definition notify_user_of_match :: "user \<Rightarrow> listing \<Rightarrow> rat \<Rightarrow> dispatch" where
  "notify_user_of_match u l match_score =
     (let tasks = [];
          tasks = (if ''email'' \<in> set (notification_methods u)
                   then tasks @ [send_email_notification] else tasks);
          tasks = (if ''push'' \<in> set (notification_methods u)
                   then tasks @ [send_push_notification] else tasks);
          tasks = (if ''sms'' \<in> set (notification_methods u) \<and> match_score > 80
                   then tasks @ [send_sms_notification] else tasks)
      in \<lparr>notification_tasks = tasks,
          auto_application =
            (auto_apply_enabled u \<and> match_score \<ge> of_int (auto_apply_threshold u))\<rparr>)"

section \<open>Change Detector\<close>

text \<open>
  Modelled from the spec: the change detector. The source has only the field
  \<^verbatim>\<open>seen_listings = set()\<close> of \<^verbatim>\<open>GlobalListingMonitor\<close> and the call of
  \<^verbatim>\<open>scan_for_new_listings\<close>, which no source file defines. The spec (4.1): the
  identity key is \<^verbatim>\<open>external_id\<close>; a content hash over price, rooms, size and
  district tells changed from duplicate; an unchanged record is dropped silently, a
  changed one is emitted again as an update, not as a new listing. The hash is the
  tuple of the four attributes, the store a map from the key to the hash last seen,
  and \<open>detectNew\<close> takes the store and returns it with the events of the batch.
\<close>

type_synonym content = "int \<times> rat \<times> int \<times> string"

definition content_hash :: "listing \<Rightarrow> content" where
  "content_hash l = (price l, rooms l, size_sqm l, district l)"

datatype event = New_listing listing | Updated_listing listing

type_synonym seen_store = "string \<rightharpoonup> content"

definition detect_one :: "listing \<Rightarrow> seen_store \<times> event list \<Rightarrow> seen_store \<times> event list" where
  "detect_one l st =
     (case fst st (external_id l) of
        None \<Rightarrow> ((fst st)(external_id l \<mapsto> content_hash l), snd st @ [New_listing l])
      | Some h \<Rightarrow>
          if h = content_hash l then st
          else ((fst st)(external_id l \<mapsto> content_hash l), snd st @ [Updated_listing l]))"

definition detectNew :: "seen_store \<Rightarrow> listing list \<Rightarrow> seen_store \<times> event list" where
  "detectNew store batch = fold detect_one batch (store, [])"

text \<open>The new-listing events of an event list that carry a given key.\<close>

definition new_events :: "string \<Rightarrow> event list \<Rightarrow> event list" where
  "new_events k evs =
     filter (\<lambda>e. case e of New_listing l \<Rightarrow> external_id l = k | Updated_listing l \<Rightarrow> False) evs"

section \<open>Scenario data\<close>

text \<open>
  The spec's scenario (8): listing \<open>{price=1000, rooms=2, district="Mitte"}\<close>,
  preference A \<open>{price 900-1100, ideal=1000, district top="Mitte", rooms=2}\<close> and
  preference B \<open>{price 1200-1500}\<close>. What the scenario does not name is unset; the size
  is a number the scenario leaves open.
\<close>

definition scenario_listing :: listing where
  "scenario_listing =
     \<lparr>external_id = ''X123'', price = 1000, rooms = 2, size_sqm = 60,
      location = ''Mitte'', district = ''Mitte'',
      pet_friendly = None, balcony = None, furnished = None\<rparr>"

definition preference_A :: preferences where
  "preference_A =
     \<lparr>price_min = Some 900, price_max = Some 1100, ideal_price = Some 1000,
      preferred_districts = [''Mitte''], top_preferred_districts = [''Mitte''],
      acceptable_districts = [],
      min_rooms = None, max_rooms = None, ideal_rooms = Some 2, min_size_sqm = None,
      want_pet_friendly = None, balcony_required = None, want_furnished = None\<rparr>"

definition preference_B :: preferences where
  "preference_B =
     \<lparr>price_min = Some 1200, price_max = Some 1500, ideal_price = None,
      preferred_districts = [], top_preferred_districts = [],
      acceptable_districts = [],
      min_rooms = None, max_rooms = None, ideal_rooms = None, min_size_sqm = None,
      want_pet_friendly = None, balcony_required = None, want_furnished = None\<rparr>"

text \<open>The same listing in a district preference A does not name.\<close>

definition spandau_listing :: listing where
  "spandau_listing = scenario_listing\<lparr>location := ''Spandau'', district := ''Spandau''\<rparr>"



text \<open>Two users of the notification system, with the threshold of the scenario.\<close>

definition email_user :: user where
  "email_user =
     \<lparr>notification_methods = [''email'', ''sms''], auto_apply_enabled = True,
      auto_apply_threshold = 80\<rparr>"


section \<open>Auxiliary notions\<close>

text \<open>The user ids an index holds under a key.\<close>

definition index_ids :: "('k \<times> 'v list) list \<Rightarrow> 'k \<Rightarrow> 'v set" where
  "index_ids ix k = (\<Union>e \<in> set ix. if fst e = k then set (snd e) else {})"

text \<open>
  Modelled from the spec: a sequence of batches goes through the change detector one
  batch after the other, each on the store the one before left.
\<close>

fun detect_batches :: "seen_store \<Rightarrow> listing list list \<Rightarrow> seen_store \<times> event list" where
  "detect_batches store [] = (store, [])"
| "detect_batches store (batch # batches) =
     (let (store1, events1) = detectNew store batch;
          (store2, events2) = detect_batches store1 batches
      in (store2, events1 @ events2))"

text \<open>Two user tables on which the candidate lookup is evaluated.\<close>

definition users_unset_bound :: "(int \<times> preferences) list" where
  "users_unset_bound = [(1, preference_A), (2, preference_A\<lparr>price_min := None\<rparr>)]"

definition users_negative_bound :: "(int \<times> preferences) list" where
  "users_negative_bound = [(1, preference_A), (2, preference_A\<lparr>price_min := Some (- 1)\<rparr>)]"

text \<open>A store that has seen the scenario's listing.\<close>

definition seen_scenario :: seen_store where
  "seen_scenario = [''X123'' \<mapsto> content_hash scenario_listing]"

section \<open>The score\<close>

lemmas scenario_defs =
  scenario_listing_def preference_A_def preference_B_def spandau_listing_def

lemmas spec_helper_defs =
  spec_price_in_range_def spec_location_matches_def spec_size_matches_def
  spec_additional_criteria_match_def spec_count_amenity_matches_def
  amenity_conflict_def amenity_satisfied_def

lemmas points_defs = price_points_def district_points_def room_points_def amenity_points_def

lemma spec_engine_simps:
  "price_in_range spec_engine = spec_price_in_range"
  "location_matches spec_engine = spec_location_matches"
  "size_matches spec_engine = spec_size_matches"
  "additional_criteria_match spec_engine = spec_additional_criteria_match"
  "count_amenity_matches spec_engine = spec_count_amenity_matches"
  by (simp_all add: spec_engine_def)

lemma price_points_nonneg: "0 \<le> price_points l p"
  by (simp add: price_points_def Let_def split: option.splits)

lemma district_points_nonneg: "0 \<le> district_points l p"
  by (simp add: district_points_def)

lemma room_points_nonneg: "0 \<le> room_points l p"
  by (simp add: room_points_def split: option.splits)

lemma amenity_points_nonneg: "0 \<le> amenity_points self l p"
  by (simp add: amenity_points_def)

text \<open>The score is the sum of the four increments, cut at 100.\<close>

lemma calculate_match_score_components:
  "calculate_match_score self l p =
     min 100 (price_points l p + district_points l p + room_points l p + amenity_points self l p)"
  by (simp add: calculate_match_score_def Let_def)

lemma calculate_match_score_bounds:
  "0 \<le> calculate_match_score self l p \<and> calculate_match_score self l p \<le> 100"
proof -
  have "0 \<le> price_points l p + district_points l p + room_points l p + amenity_points self l p"
    using price_points_nonneg [of l p] district_points_nonneg [of l p]
      room_points_nonneg [of l p] amenity_points_nonneg [of self l p]
    by linarith
  then show ?thesis
    by (simp add: calculate_match_score_components)
qed

text \<open>
  \<^verbatim>\<open>find_matching_users\<close> returns the users \<open>score\<close> does not exclude, each with the
  score.
\<close>

lemma find_matching_users_score:
  "(user_id, p, s) \<in> set (find_matching_users self l user_preferences) \<longleftrightarrow>
     (user_id, p) \<in> set user_preferences \<and> score self l p = Scored s"
proof (induction user_preferences)
  case Nil
  show ?case by simp
next
  case (Cons u user_preferences)
  obtain uid' p' where u: "u = (uid', p')" by (cases u)
  show ?case
    using Cons.IH by (auto simp: u score_def)
qed

text \<open>
  Claim C2. For every listing and preference, whatever the five missing methods do,
  scoring either excludes the pair, which is when the hard filter rejects it and no
  score is computed, or returns a score between 0 and 100.
\<close>

theorem score_excluded_or_in_range:
  "(\<not> listing_matches_preferences self l p \<and> score self l p = Excluded) \<or>
   (listing_matches_preferences self l p \<and>
    (\<exists>s. score self l p = Scored s \<and> 0 \<le> s \<and> s \<le> 100))"
  using calculate_match_score_bounds [of self l p] by (simp add: score_def)

theorem score_excluded_or_in_range_witness:
  "score spec_engine scenario_listing preference_B = Excluded \<and>
   score spec_engine scenario_listing preference_A = Scored 80 \<and>
   (0::rat) \<le> 80 \<and> (80::rat) \<le> 100"
  using score_excluded_or_in_range [of spec_engine scenario_listing preference_B]
    score_excluded_or_in_range [of spec_engine scenario_listing preference_A]
  by (simp add: score_def listing_matches_preferences_def calculate_match_score_components
      points_defs spec_engine_simps spec_helper_defs scenario_defs)

text \<open>
  Claim C3 says that a preference with no ideal price gets a flat 30 points for the
  price. The source adds nothing in that case: preference A scores 80 on the
  scenario's listing and, without its ideal price, 50 (30 for the district, 20 for the
  rooms); the price increment is 0, not 30.
\<close>

theorem no_ideal_price_counterexample:
  "ideal_price (preference_A\<lparr>ideal_price := None\<rparr>) = None \<and>
   score spec_engine scenario_listing preference_A = Scored 80 \<and>
   score spec_engine scenario_listing (preference_A\<lparr>ideal_price := None\<rparr>) = Scored 50 \<and>
   price_points scenario_listing (preference_A\<lparr>ideal_price := None\<rparr>) = 0 \<and>
   price_points scenario_listing (preference_A\<lparr>ideal_price := None\<rparr>) \<noteq> 30"
  by (simp add: score_def listing_matches_preferences_def calculate_match_score_components
      points_defs spec_engine_simps spec_helper_defs scenario_defs)

text \<open>
  Claim C3, amended. For every listing and every preference with no ideal price,
  whatever the missing methods do: the price increment is 0 and the score is the sum
  of the district, room and amenity increments, cut at 100. The same preference with
  an ideal price set has the same district and room increments and its score is the
  sum with the price increment, cut at 100; where the amenity count is the same for
  both, the preference without the ideal price never scores higher.
\<close>

theorem no_ideal_price_contributes_nothing:
  "ideal_price p = None \<Longrightarrow>
   price_points l p = 0 \<and>
   calculate_match_score self l p =
     min 100 (district_points l p + room_points l p + amenity_points self l p) \<and>
   district_points l (p\<lparr>ideal_price := v\<rparr>) = district_points l p \<and>
   room_points l (p\<lparr>ideal_price := v\<rparr>) = room_points l p \<and>
   calculate_match_score self l (p\<lparr>ideal_price := v\<rparr>) =
     min 100 (price_points l (p\<lparr>ideal_price := v\<rparr>) + district_points l p +
              room_points l p + amenity_points self l (p\<lparr>ideal_price := v\<rparr>)) \<and>
   (count_amenity_matches self l (p\<lparr>ideal_price := v\<rparr>) = count_amenity_matches self l p \<longrightarrow>
      calculate_match_score self l p \<le> calculate_match_score self l (p\<lparr>ideal_price := v\<rparr>))"
proof -
  assume none: "ideal_price p = None"
  let ?p = "p\<lparr>ideal_price := v\<rparr>"
  have price: "price_points l p = 0"
    using none by (simp add: price_points_def)
  have district: "district_points l ?p = district_points l p"
    by (simp add: district_points_def)
  have room: "room_points l ?p = room_points l p"
    by (simp add: room_points_def)
  have without: "calculate_match_score self l p =
      min 100 (district_points l p + room_points l p + amenity_points self l p)"
    by (simp add: calculate_match_score_components price)
  have with_price: "calculate_match_score self l ?p =
      min 100 (price_points l ?p + district_points l p + room_points l p +
               amenity_points self l ?p)"
    by (simp add: calculate_match_score_components district room)
  have "calculate_match_score self l p \<le> calculate_match_score self l ?p"
    if "count_amenity_matches self l ?p = count_amenity_matches self l p"
  proof -
    from that have "amenity_points self l ?p = amenity_points self l p"
      by (simp add: amenity_points_def)
    with price_points_nonneg [of l ?p] show ?thesis
      by (simp add: without with_price)
  qed
  with price district room without with_price show ?thesis by simp
qed

theorem no_ideal_price_contributes_nothing_witness:
  "ideal_price (preference_A\<lparr>ideal_price := None\<rparr>) = None \<and>
   price_points scenario_listing (preference_A\<lparr>ideal_price := None\<rparr>) = 0 \<and>
   calculate_match_score spec_engine scenario_listing (preference_A\<lparr>ideal_price := None\<rparr>) = 50 \<and>
   price_points scenario_listing (preference_A\<lparr>ideal_price := Some 1000\<rparr>) = 30 \<and>
   calculate_match_score spec_engine scenario_listing (preference_A\<lparr>ideal_price := Some 1000\<rparr>)
     = 80 \<and>
   count_amenity_matches spec_engine scenario_listing (preference_A\<lparr>ideal_price := Some 1000\<rparr>) =
     count_amenity_matches spec_engine scenario_listing (preference_A\<lparr>ideal_price := None\<rparr>)"
  using no_ideal_price_contributes_nothing
    [where p = "preference_A\<lparr>ideal_price := None\<rparr>" and l = scenario_listing
       and self = spec_engine and v = "Some 1000"]
  by (simp add: points_defs spec_engine_simps spec_helper_defs scenario_defs)




text \<open>With the three amenities of the data model the count is at most 3.\<close>

lemma spec_count_amenity_matches_le: "spec_count_amenity_matches l p \<le> 3"
  by (simp add: spec_count_amenity_matches_def)

text \<open>
  The source puts the location check before any scoring: an implementation of
  \<^verbatim>\<open>location_matches\<close> that rejects a pair excludes it. Whether one does is not in
  the source.
\<close>

lemma location_gate:
  "\<not> location_matches self (location l) (preferred_districts p) \<Longrightarrow> score self l p = Excluded"
  by (simp add: score_def listing_matches_preferences_def)

text \<open>
  Claim C5. With the location check modelled from the spec, which rejects nothing, and
  whatever the other missing methods do: a pair is excluded exactly when the price,
  size or amenity check rejects it, whatever its district; and a pair with a district
  in neither tier gets 0 district points and, when those three checks accept it, the
  score of its price, room and amenity increments.
\<close>

theorem unlisted_district_soft_zero:
  "(score (self\<lparr>location_matches := spec_location_matches\<rparr>) l p = Excluded \<longleftrightarrow>
      \<not> (price_in_range self (price l) (price_min p) (price_max p) \<and>
         size_matches self (rooms l) (size_sqm l) p \<and>
         additional_criteria_match self l p)) \<and>
   (district l \<notin> set (top_preferred_districts p) \<and>
    district l \<notin> set (acceptable_districts p) \<longrightarrow>
      district_points l p = 0 \<and>
      (price_in_range self (price l) (price_min p) (price_max p) \<and>
       size_matches self (rooms l) (size_sqm l) p \<and>
       additional_criteria_match self l p \<longrightarrow>
         score (self\<lparr>location_matches := spec_location_matches\<rparr>) l p =
           Scored (min 100 (price_points l p + room_points l p + amenity_points self l p))))"
  by (simp add: score_def listing_matches_preferences_def calculate_match_score_components
      district_points_def amenity_points_def spec_location_matches_def)

theorem unlisted_district_soft_zero_witness:
  "district spandau_listing \<notin> set (top_preferred_districts preference_A) \<and>
   district spandau_listing \<notin> set (acceptable_districts preference_A) \<and>
   location spandau_listing \<notin> set (preferred_districts preference_A) \<and>
   district_points spandau_listing preference_A = 0 \<and>
   score spec_engine spandau_listing preference_A = Scored 50 \<and>
   score spec_engine spandau_listing preference_B = Excluded"
  using unlisted_district_soft_zero [of spec_engine spandau_listing preference_A]
    unlisted_district_soft_zero [of spec_engine spandau_listing preference_B]
  by (simp add: score_def listing_matches_preferences_def calculate_match_score_components
      points_defs spec_engine_def spec_helper_defs scenario_defs)

text \<open>
  Claim C6 says that the scenario's listing scores exactly 100 against preference A.
  It does not: the price gives 30, the district 30, the rooms 20, and no amenity is
  named on either side.
\<close>

theorem scenario_score_counterexample:
  "score spec_engine scenario_listing preference_A \<noteq> Scored 100"
  by (simp add: score_def listing_matches_preferences_def calculate_match_score_components
      points_defs spec_engine_simps spec_helper_defs scenario_defs)

text \<open>
  Claim C6, amended. The scenario's listing is not excluded by preference A and scores
  exactly 80 against it; against preference B it is excluded and no score is computed.
\<close>

theorem scenario_score:
  "score spec_engine scenario_listing preference_A = Scored 80 \<and>
   score spec_engine scenario_listing preference_B = Excluded"
  by (simp add: score_def listing_matches_preferences_def calculate_match_score_components
      points_defs spec_engine_simps spec_helper_defs scenario_defs)

text \<open>
  No choice of amenities lifts the scenario to 100: with three amenities and an ideal
  price that is not negative, a score is at most 30 + 30 + 20 + 15.
\<close>

lemma price_points_le_30:
  assumes "\<And>ip. ideal_price p = Some ip \<Longrightarrow> 0 \<le> ip"
  shows "price_points l p \<le> 30"
proof (cases "ideal_price p")
  case None
  then show ?thesis by (simp add: price_points_def)
next
  case (Some ip)
  with assms have "0 \<le> ip" by simp
  then have "0 \<le> (of_int \<bar>price l - ip\<bar> :: rat) / of_int ip * 100"
    by simp
  with Some show ?thesis
    by (simp add: price_points_def Let_def)
qed

lemma spec_score_at_most_95:
  assumes "\<And>ip. ideal_price p = Some ip \<Longrightarrow> 0 \<le> ip"
  shows "calculate_match_score spec_engine l p \<le> 95"
proof -
  have "district_points l p \<le> 30" by (simp add: district_points_def)
  moreover have "room_points l p \<le> 20" by (simp add: room_points_def split: option.splits)
  moreover have "amenity_points spec_engine l p \<le> 15"
  proof -
    have "(of_nat (spec_count_amenity_matches l p) :: rat) \<le> of_nat 3"
      using spec_count_amenity_matches_le [of l p] by (simp only: of_nat_le_iff)
    then show ?thesis by (simp add: amenity_points_def spec_engine_simps)
  qed
  moreover have "price_points l p \<le> 30"
    using assms by (rule price_points_le_30)
  ultimately have "price_points l p + district_points l p + room_points l p +
      amenity_points spec_engine l p \<le> 95"
    by linarith
  then show ?thesis
    by (simp add: calculate_match_score_components)
qed

text \<open>
  Claim C9. With the amenity filter modelled from the spec, and whatever the other
  missing methods do: when the preference leaves an amenity unspecified, setting the
  listing's value of that amenity to true, false or unspecified does not change
  whether the pair is excluded.
\<close>

theorem amenity_neutrality:
  "(want_pet_friendly p = None \<longrightarrow>
      (score (self\<lparr>additional_criteria_match := spec_additional_criteria_match\<rparr>)
         (l\<lparr>pet_friendly := v\<rparr>) p = Excluded) =
      (score (self\<lparr>additional_criteria_match := spec_additional_criteria_match\<rparr>) l p = Excluded)) \<and>
   (balcony_required p = None \<longrightarrow>
      (score (self\<lparr>additional_criteria_match := spec_additional_criteria_match\<rparr>)
         (l\<lparr>balcony := v\<rparr>) p = Excluded) =
      (score (self\<lparr>additional_criteria_match := spec_additional_criteria_match\<rparr>) l p = Excluded)) \<and>
   (want_furnished p = None \<longrightarrow>
      (score (self\<lparr>additional_criteria_match := spec_additional_criteria_match\<rparr>)
         (l\<lparr>furnished := v\<rparr>) p = Excluded) =
      (score (self\<lparr>additional_criteria_match := spec_additional_criteria_match\<rparr>) l p = Excluded))"
  by (auto simp add: score_def listing_matches_preferences_def
      spec_additional_criteria_match_def amenity_conflict_def split: option.splits)

theorem amenity_neutrality_witness:
  "want_pet_friendly preference_A = None \<and> balcony_required preference_A = None \<and>
   want_furnished preference_A = None \<and>
   score spec_engine (scenario_listing\<lparr>pet_friendly := Some True\<rparr>) preference_A \<noteq> Excluded \<and>
   score spec_engine (scenario_listing\<lparr>balcony := Some False\<rparr>) preference_A \<noteq> Excluded \<and>
   score spec_engine (scenario_listing\<lparr>furnished := Some True\<rparr>) preference_A \<noteq> Excluded \<and>
   score spec_engine scenario_listing preference_A \<noteq> Excluded \<and>
   want_pet_friendly preference_B = None \<and>
   score spec_engine (scenario_listing\<lparr>pet_friendly := Some True\<rparr>) preference_B = Excluded \<and>
   score spec_engine scenario_listing preference_B = Excluded"
  using amenity_neutrality
      [where p = preference_A and self = spec_engine and l = scenario_listing and v = "Some True"]
    amenity_neutrality
      [where p = preference_A and self = spec_engine and l = scenario_listing and v = "Some False"]
    amenity_neutrality
      [where p = preference_B and self = spec_engine and l = scenario_listing and v = "Some True"]
  by (simp add: score_def listing_matches_preferences_def
      spec_engine_simps spec_helper_defs scenario_defs)

text \<open>
  The amenity filter does exclude where the preference states a value and the listing
  states the opposite, so the neutrality above is not that of a filter that accepts
  everything.
\<close>

lemma amenity_filter_excludes_opposite:
  "score spec_engine (scenario_listing\<lparr>pet_friendly := Some False\<rparr>)
     (preference_A\<lparr>want_pet_friendly := Some True\<rparr>) = Excluded \<and>
   score spec_engine (scenario_listing\<lparr>pet_friendly := Some True\<rparr>)
     (preference_A\<lparr>want_pet_friendly := Some True\<rparr>) = Scored 85 \<and>
   score spec_engine scenario_listing
     (preference_A\<lparr>want_pet_friendly := Some True\<rparr>) = Scored 80"
  by (simp add: score_def listing_matches_preferences_def calculate_match_score_components
      points_defs spec_engine_simps spec_helper_defs scenario_defs)

section \<open>The candidate lookup\<close>

text \<open>A key written from two bounds that are set and not negative reads back as the bounds.\<close>

lemma of_char_digit_char: "d < 10 \<Longrightarrow> (of_char (digit_char d) :: nat) = 48 + d"
  by (simp add: digit_char_def)

lemma is_digit_digit_char: "d < 10 \<Longrightarrow> is_digit (digit_char d)"
  by (simp add: is_digit_def of_char_digit_char)

lemma digit_val_digit_char: "d < 10 \<Longrightarrow> digit_val (digit_char d) = int d"
  by (simp add: digit_val_def of_char_digit_char)

lemma digit_char_not_dash: "d < 10 \<Longrightarrow> digit_char d \<noteq> CHR ''-''"
proof
  assume d: "d < 10" and "digit_char d = CHR ''-''"
  then have "(of_char (digit_char d) :: nat) = of_char CHR ''-''" by simp
  with d show False by (simp add: of_char_digit_char)
qed

lemma str_nat_nonempty: "str_nat n \<noteq> []"
  by (subst str_nat.simps) simp

lemma str_nat_digits: "list_all is_digit (str_nat n)"
proof (induction n rule: str_nat.induct)
  case (1 n)
  show ?case
  proof (cases "n < 10")
    case True
    then show ?thesis by (subst str_nat.simps) (simp add: is_digit_digit_char)
  next
    case False
    with 1 show ?thesis by (subst str_nat.simps) (simp add: is_digit_digit_char)
  qed
qed

lemma str_nat_no_dash: "CHR ''-'' \<notin> set (str_nat n)"
proof (induction n rule: str_nat.induct)
  case (1 n)
  show ?case
  proof (cases "n < 10")
    case True
    then show ?thesis using digit_char_not_dash [of n] by (subst str_nat.simps) auto
  next
    case False
    with 1 show ?thesis using digit_char_not_dash [of "n mod 10"]
      by (subst str_nat.simps) auto
  qed
qed

lemma str_nat_value: "foldl (\<lambda>acc c. 10 * acc + digit_val c) 0 (str_nat n) = int n"
proof (induction n rule: str_nat.induct)
  case (1 n)
  show ?case
  proof (cases "n < 10")
    case True
    then show ?thesis by (subst str_nat.simps) (simp add: digit_val_digit_char)
  next
    case False
    with 1 have "foldl (\<lambda>acc c. 10 * acc + digit_val c) 0 (str_nat (n div 10)) = int (n div 10)"
      by simp
    with False show ?thesis
      by (subst str_nat.simps) (simp add: digit_val_digit_char zdiv_int zmod_int)
  qed
qed

lemma py_int_str_nat: "py_int (str_nat n) = Inr (int n)"
  by (simp add: py_int_def str_nat_nonempty str_nat_digits str_nat_value)

lemma split_dash_no_dash: "CHR ''-'' \<notin> set s \<Longrightarrow> split_dash s = [s]"
  by (induction s) auto

lemma split_dash_append:
  "CHR ''-'' \<notin> set a \<Longrightarrow> split_dash (a @ CHR ''-'' # b) = a # split_dash b"
  by (induction a) auto

lemma parse_price_key:
  assumes "price_min p = Some lo" "price_max p = Some hi" "0 \<le> lo" "0 \<le> hi"
  shows "parse_price_range (price_key p) = Inr (lo, hi)"
proof -
  have key: "price_key p = str_nat (nat lo) @ CHR ''-'' # str_nat (nat hi)"
    using assms by (simp add: price_key_def py_str_def)
  have "split_dash (price_key p) = [str_nat (nat lo), str_nat (nat hi)]"
    by (simp add: key split_dash_append split_dash_no_dash str_nat_no_dash)
  then show ?thesis
    using assms by (simp add: parse_price_range_def py_int_str_nat)
qed

text \<open>What the indexes hold after \<^verbatim>\<open>build_user_indexes\<close>, and what the scan returns.\<close>

lemma index_ids_Nil: "index_ids [] k = {}"
  by (simp add: index_ids_def)

lemma index_ids_Cons:
  "index_ids ((k', vs) # ix) k = (if k' = k then set vs \<union> index_ids ix k else index_ids ix k)"
  by (simp add: index_ids_def)

lemma index_ids_dd_append_same:
  "index_ids (dd_append k v ix) k = insert v (index_ids ix k)"
  by (induction k v ix rule: dd_append.induct) (simp_all add: index_ids_Nil index_ids_Cons)

lemma index_ids_dd_append_other:
  "k' \<noteq> k \<Longrightarrow> index_ids (dd_append k v ix) k' = index_ids ix k'"
  by (induction k v ix rule: dd_append.induct) (simp_all add: index_ids_Nil index_ids_Cons)

lemma index_ids_dd_append:
  "index_ids (dd_append k v ix) k' =
     (if k' = k then insert v (index_ids ix k') else index_ids ix k')"
  by (simp add: index_ids_dd_append_same index_ids_dd_append_other)

lemma dd_append_keys: "fst ` set (dd_append k v ix) = insert k (fst ` set ix)"
  by (induction k v ix rule: dd_append.induct) auto

lemma price_index_index_user:
  "price_index (index_user u m) = dd_append (price_key (snd u)) (fst u) (price_index m)"
  by (simp add: index_user_def)

lemma fold_index_user_keys:
  "fst ` set (price_index (fold index_user users m)) =
     fst ` set (price_index m) \<union> (\<lambda>u. price_key (snd u)) ` set users"
  by (induction users arbitrary: m) (auto simp: price_index_index_user dd_append_keys)

lemma fold_index_user_ids:
  "index_ids (price_index (fold index_user users m)) k =
     index_ids (price_index m) k \<union> fst ` {u \<in> set users. price_key (snd u) = k}"
  by (induction users arbitrary: m) (auto simp: price_index_index_user index_ids_dd_append)

lemma scan_price_index_ok:
  assumes "\<forall>e \<in> set ix. \<exists>lo hi. parse_price_range (fst e) = Inr (lo, hi)"
  shows "\<exists>C. scan_price_index pr ix acc = Inr C \<and> acc \<subseteq> C \<and>
           (\<forall>k lo hi. parse_price_range k = Inr (lo, hi) \<longrightarrow>
              lo \<le> pr \<longrightarrow> pr \<le> hi \<longrightarrow> index_ids ix k \<subseteq> C)"
  using assms
proof (induction ix arbitrary: acc)
  case Nil
  then show ?case by (simp add: index_ids_Nil)
next
  case (Cons e ix)
  obtain k ids where e: "e = (k, ids)" by (cases e)
  from Cons.prems e obtain lo hi where p: "parse_price_range k = Inr (lo, hi)"
    by auto
  let ?acc = "if lo \<le> pr \<and> pr \<le> hi then acc \<union> set ids else acc"
  have "\<forall>e \<in> set ix. \<exists>lo hi. parse_price_range (fst e) = Inr (lo, hi)"
    using Cons.prems by simp
  from Cons.IH [OF this, of ?acc]
  obtain C where C: "scan_price_index pr ix ?acc = Inr C" "?acc \<subseteq> C"
    "\<forall>k lo hi. parse_price_range k = Inr (lo, hi) \<longrightarrow>
        lo \<le> pr \<longrightarrow> pr \<le> hi \<longrightarrow> index_ids ix k \<subseteq> C"
    by blast
  have "scan_price_index pr (e # ix) acc = Inr C"
    using C(1) p e by simp
  moreover have "acc \<subseteq> C" using C(2) by (auto split: if_splits)
  moreover have "index_ids (e # ix) k' \<subseteq> C"
    if "parse_price_range k' = Inr (lo', hi')" "lo' \<le> pr" "pr \<le> hi'" for k' lo' hi'
  proof -
    from C(3) that have "index_ids ix k' \<subseteq> C" by blast
    moreover have "set ids \<subseteq> C" if "k = k'"
      using that \<open>parse_price_range k' = Inr (lo', hi')\<close> \<open>lo' \<le> pr\<close> \<open>pr \<le> hi'\<close> p C(2)
      by (auto split: if_splits)
    ultimately show ?thesis by (auto simp: e index_ids_Cons)
  qed
  ultimately show ?case by blast
qed

text \<open>
  Where every user's price bounds are set and not negative, the lookup returns, and
  its result holds every user the exact filter accepts, for every implementation of
  the missing methods whose price check accepts only prices within the two bounds.
\<close>

lemma candidates_superset:
  assumes sound: "\<And>pr lo hi. price_in_range self pr (Some lo) (Some hi) \<Longrightarrow> lo \<le> pr \<and> pr \<le> hi"
    and bounds: "\<And>uid p. (uid, p) \<in> set users \<Longrightarrow>
        \<exists>lo hi. price_min p = Some lo \<and> price_max p = Some hi \<and> 0 \<le> lo \<and> 0 \<le> hi"
  shows "\<exists>C. get_candidate_users (build_user_indexes users) l = Inr C \<and>
           (\<forall>(uid, p) \<in> set users. listing_matches_preferences self l p \<longrightarrow> uid \<in> C)"
proof -
  let ?m = "build_user_indexes users"
  have parses: "\<forall>e \<in> set (price_index ?m). \<exists>lo hi. parse_price_range (fst e) = Inr (lo, hi)"
  proof
    fix e assume "e \<in> set (price_index ?m)"
    then have "fst e \<in> fst ` set (price_index ?m)" by simp
    then obtain u where u: "u \<in> set users" "fst e = price_key (snd u)"
      by (auto simp: build_user_indexes_def fold_index_user_keys)
    from bounds [of "fst u" "snd u"] u(1)
    obtain lo hi where "price_min (snd u) = Some lo" "price_max (snd u) = Some hi" "0 \<le> lo" "0 \<le> hi"
      by auto
    from parse_price_key [OF this] u(2)
    show "\<exists>lo hi. parse_price_range (fst e) = Inr (lo, hi)" by auto
  qed
  from scan_price_index_ok [OF parses, of "price l" "{}"]
  obtain C where C: "scan_price_index (price l) (price_index ?m) {} = Inr C"
    "\<forall>k lo hi. parse_price_range k = Inr (lo, hi) \<longrightarrow>
        lo \<le> price l \<longrightarrow> price l \<le> hi \<longrightarrow> index_ids (price_index ?m) k \<subseteq> C"
    by blast
  have "\<exists>C'. get_candidate_users ?m l = Inr C' \<and> C \<subseteq> C'"
    by (cases "map_of (district_index ?m) (district l)")
      (simp_all add: get_candidate_users_def C(1))
  then obtain C' where C': "get_candidate_users ?m l = Inr C'" "C \<subseteq> C'" by blast
  have "uid \<in> C'" if u: "(uid, p) \<in> set users" and m: "listing_matches_preferences self l p" for uid p
  proof -
    from bounds [OF u]
    obtain lo hi where b: "price_min p = Some lo" "price_max p = Some hi" "0 \<le> lo" "0 \<le> hi"
      by auto
    from m have "price_in_range self (price l) (price_min p) (price_max p)"
      by (simp add: listing_matches_preferences_def split: if_splits)
    with b sound have r: "lo \<le> price l" "price l \<le> hi" by auto
    have "uid \<in> index_ids (price_index ?m) (price_key p)"
      using u by (force simp: build_user_indexes_def fold_index_user_ids)
    moreover from C(2) parse_price_key [OF b] r
    have "index_ids (price_index ?m) (price_key p) \<subseteq> C" by blast
    ultimately show ?thesis using C'(2) by auto
  qed
  with C'(1) show ?thesis by auto
qed

lemma candidates_superset_spec_engine:
  "\<exists>C. get_candidate_users (build_user_indexes [(1, preference_A), (2, preference_B)])
          scenario_listing = Inr C \<and>
       (\<forall>(uid, p) \<in> set [(1, preference_A), (2, preference_B)].
          listing_matches_preferences spec_engine scenario_listing p \<longrightarrow> uid \<in> C)"
proof (rule candidates_superset)
  show "lo \<le> pr \<and> pr \<le> hi" if "price_in_range spec_engine pr (Some lo) (Some hi)" for pr lo hi
    using that by (simp add: spec_engine_simps spec_price_in_range_def)
  show "\<exists>lo hi. price_min p = Some lo \<and> price_max p = Some hi \<and> 0 \<le> lo \<and> 0 \<le> hi"
    if "(uid, p) \<in> set [(1, preference_A), (2, preference_B)]" for uid p
    using that by (auto simp: preference_A_def preference_B_def)
qed

text \<open>
  Claim C1 says that the lookup returns a superset of the exact matches for every set
  of active preferences. It does not return at all once one user's price bound is not
  set or is negative: the key of that user is \<^verbatim>\<open>None-1100\<close> or \<^verbatim>\<open>-1-1100\<close>,
  \<^verbatim>\<open>int\<close> raises ValueError on the piece \<^verbatim>\<open>None\<close> or on the empty piece before
  the minus sign, and the exception leaves \<^verbatim>\<open>get_candidate_users\<close> with no
  candidate, also not user 1, whom the exact filter accepts and whom the lookup
  returns when user 1 is the only user.
\<close>

theorem candidate_lookup_raises:
  "listing_matches_preferences spec_engine scenario_listing preference_A \<and>
   get_candidate_users (build_user_indexes [(1, preference_A)]) scenario_listing = Inr {1} \<and>
   get_candidate_users (build_user_indexes users_unset_bound) scenario_listing = Inl ValueError \<and>
   get_candidate_users (build_user_indexes users_negative_bound) scenario_listing = Inl ValueError"
proof -
  have "listing_matches_preferences spec_engine scenario_listing preference_A"
    by (simp add: listing_matches_preferences_def spec_engine_simps spec_helper_defs scenario_defs)
  moreover have "get_candidate_users (build_user_indexes [(1, preference_A)]) scenario_listing
      = Inr {1}"
    by code_simp
  moreover have "get_candidate_users (build_user_indexes users_unset_bound) scenario_listing
      = Inl ValueError"
    by code_simp
  moreover have "get_candidate_users (build_user_indexes users_negative_bound) scenario_listing
      = Inl ValueError"
    by code_simp
  ultimately show ?thesis by simp
qed

section \<open>Notifications and automatic applications\<close>




text \<open>
  Claim C10. For every user whose channels include SMS, the SMS is sent exactly when
  the score is above 80; email and push are sent whenever they are among the user's
  channels, whatever the score.
\<close>

theorem sms_only_above_80:
  assumes "''sms'' \<in> set (notification_methods u)"
  shows "(send_sms_notification \<in> set (notification_tasks (notify_user_of_match u l s)) \<longleftrightarrow> 80 < s) \<and>
    (send_email_notification \<in> set (notification_tasks (notify_user_of_match u l s)) \<longleftrightarrow>
       ''email'' \<in> set (notification_methods u)) \<and>
    (send_push_notification \<in> set (notification_tasks (notify_user_of_match u l s)) \<longleftrightarrow>
       ''push'' \<in> set (notification_methods u))"
  using assms by (simp add: notify_user_of_match_def Let_def)

theorem sms_only_above_80_witness:
  "''sms'' \<in> set (notification_methods email_user) \<and>
   notification_tasks (notify_user_of_match email_user scenario_listing 80) = [send_email_notification] \<and>
   notification_tasks (notify_user_of_match email_user scenario_listing 81) =
     [send_email_notification, send_sms_notification]"
  using sms_only_above_80 [of email_user scenario_listing 80]
  by (simp add: notify_user_of_match_def Let_def email_user_def)

section \<open>The change detector\<close>

lemma detect_one_events:
  "detect_one l (s, evs) = (fst (detect_one l (s, [])), evs @ snd (detect_one l (s, [])))"
  by (simp add: detect_one_def split: option.splits)

lemma fold_detect_one_events:
  "fold detect_one batch (s, evs) =
     (fst (fold detect_one batch (s, [])), evs @ snd (fold detect_one batch (s, [])))"
proof (induction batch arbitrary: s evs)
  case Nil
  show ?case by simp
next
  case (Cons l batch)
  obtain s1 e1 where d: "detect_one l (s, []) = (s1, e1)" by (cases "detect_one l (s, [])")
  have d': "detect_one l (s, evs) = (s1, evs @ e1)"
    using detect_one_events [of l s evs] d by simp
  show ?case
    using Cons.IH [of s1 "evs @ e1"] Cons.IH [of s1 e1] by (simp add: d d')
qed

lemma detectNew_append:
  "detectNew store (b1 @ b2) =
     (fst (detectNew (fst (detectNew store b1)) b2),
      snd (detectNew store b1) @ snd (detectNew (fst (detectNew store b1)) b2))"
proof -
  obtain s1 e1 where d: "fold detect_one b1 (store, []) = (s1, e1)"
    by (cases "fold detect_one b1 (store, [])")
  show ?thesis
    using fold_detect_one_events [of b2 s1 e1] by (simp add: detectNew_def d)
qed

lemma detect_batches_concat: "detect_batches store batches = detectNew store (concat batches)"
proof (induction batches arbitrary: store)
  case Nil
  show ?case by (simp add: detectNew_def)
next
  case (Cons b batches)
  show ?case
    by (simp add: detectNew_append Cons.IH split: prod.splits)
qed

lemma new_events_append: "new_events k (xs @ ys) = new_events k xs @ new_events k ys"
  by (simp add: new_events_def)

lemma detect_one_cases:
  obtains (new) "fst st (external_id l) = None"
      "detect_one l st = ((fst st)(external_id l \<mapsto> content_hash l), snd st @ [New_listing l])"
  | (same) "fst st (external_id l) = Some (content_hash l)" "detect_one l st = st"
  | (changed) h where "fst st (external_id l) = Some h" "h \<noteq> content_hash l"
      "detect_one l st =
         ((fst st)(external_id l \<mapsto> content_hash l), snd st @ [Updated_listing l])"
proof (cases "fst st (external_id l)")
  case None
  then show ?thesis using new by (simp add: detect_one_def)
next
  case (Some h)
  show ?thesis
  proof (cases "h = content_hash l")
    case True
    with Some show ?thesis using same by (simp add: detect_one_def)
  next
    case False
    with Some show ?thesis using changed [of h] by (simp add: detect_one_def)
  qed
qed

lemma detect_one_seen:
  assumes "k \<in> dom (fst st)"
  shows "k \<in> dom (fst (detect_one l st))"
    and "new_events k (snd (detect_one l st)) = new_events k (snd st)"
proof -
  show "k \<in> dom (fst (detect_one l st))"
  proof (cases st l rule: detect_one_cases)
    case new
    with assms show ?thesis by (simp only: fst_conv dom_fun_upd option.simps if_False insertI2)
  next
    case same
    with assms show ?thesis by (simp only:)
  next
    case (changed h)
    with assms show ?thesis by (simp only: fst_conv dom_fun_upd option.simps if_False insertI2)
  qed
  show "new_events k (snd (detect_one l st)) = new_events k (snd st)"
  proof (cases st l rule: detect_one_cases)
    case new
    with assms have "external_id l \<noteq> k" by (auto simp only: dom_def)
    with new show ?thesis by (simp add: new_events_def)
  next
    case same
    then show ?thesis by simp
  next
    case (changed h)
    then show ?thesis by (simp add: new_events_def)
  qed
qed

lemma fold_detect_one_seen:
  "k \<in> dom (fst st) \<Longrightarrow>
   new_events k (snd (fold detect_one batch st)) = new_events k (snd st)"
proof (induction batch arbitrary: st)
  case Nil
  show ?case by simp
next
  case (Cons l batch)
  from Cons.IH [OF detect_one_seen(1) [OF Cons.prems, of l]]
  show ?case by (simp add: detect_one_seen(2) [OF Cons.prems])
qed

lemma detect_one_new_once:
  "length (new_events k (snd (detect_one l st))) \<le> length (new_events k (snd st)) + 1"
  by (cases st l rule: detect_one_cases) (simp_all add: new_events_def)

lemma detect_one_still_unseen:
  assumes "fst (detect_one l st) k = None"
  shows "new_events k (snd (detect_one l st)) = new_events k (snd st)"
  using assms by (cases st l rule: detect_one_cases) (auto simp: new_events_def split: if_splits)

lemma fold_detect_one_new_once:
  "length (new_events k (snd (fold detect_one batch st))) \<le> length (new_events k (snd st)) + 1"
proof (induction batch arbitrary: st)
  case Nil
  show ?case by simp
next
  case (Cons l batch)
  show ?case
  proof (cases "k \<in> dom (fst (detect_one l st))")
    case False
    then have "fst (detect_one l st) k = None" by (simp only: domIff simp_thms)
    from Cons.IH [of "detect_one l st"] detect_one_still_unseen [OF this]
    show ?thesis by simp
  next
    case True
    from fold_detect_one_seen [OF this, of batch] detect_one_new_once [of k l st]
    show ?thesis by simp
  qed
qed

lemma detectNew_seen: "k \<in> dom store \<Longrightarrow> new_events k (snd (detectNew store batch)) = []"
  using fold_detect_one_seen [of k "(store, [])" batch]
  by (simp add: detectNew_def new_events_def)

lemma detectNew_new_once: "length (new_events k (snd (detectNew store batch))) \<le> 1"
  using fold_detect_one_new_once [of k batch "(store, [])"]
  by (simp add: detectNew_def new_events_def)

lemma detect_one_unchanged:
  "fst st (external_id l) = Some (content_hash l) \<Longrightarrow> detect_one l st = st"
  by (cases st l rule: detect_one_cases) simp_all

lemma fold_detect_one_unchanged:
  "\<forall>l \<in> set batch. fst st (external_id l) = Some (content_hash l) \<Longrightarrow>
   fold detect_one batch st = st"
  by (induction batch) (simp_all add: detect_one_unchanged)

lemma find_key_None: "k \<notin> f ` set xs \<Longrightarrow> find (\<lambda>y. f y = k) xs = None"
  by (induction xs) auto

lemma find_key_Some:
  "distinct (map f xs) \<Longrightarrow> x \<in> set xs \<Longrightarrow> find (\<lambda>y. f y = f x) xs = Some x"
proof (induction xs)
  case Nil
  then show ?case by simp
next
  case (Cons a xs)
  show ?case
  proof (cases "a = x")
    case True
    then show ?thesis by simp
  next
    case False
    with Cons.prems have x: "x \<in> set xs" and d: "distinct (map f xs)" and a: "f a \<notin> f ` set xs"
      by simp_all
    from a x have "f a \<noteq> f x" by (metis imageI)
    with Cons.IH [OF d x] show ?thesis by simp
  qed
qed

lemma fold_detect_one_store:
  "distinct (map external_id batch) \<Longrightarrow>
   fst (fold detect_one batch st) k =
     (case find (\<lambda>l. external_id l = k) batch of
        None \<Rightarrow> fst st k
      | Some l \<Rightarrow> Some (content_hash l))"
proof (induction batch arbitrary: st)
  case Nil
  show ?case by simp
next
  case (Cons l batch)
  from Cons.prems have d: "distinct (map external_id batch)"
    and n: "external_id l \<notin> external_id ` set batch"
    by simp_all
  note IH = Cons.IH [OF d, of "detect_one l st"]
  show ?case
  proof (cases "external_id l = k")
    case True
    with n have "find (\<lambda>l'. external_id l' = k) batch = None"
      by (simp add: find_key_None)
    moreover have "fst (detect_one l st) k = Some (content_hash l)"
      using True by (cases st l rule: detect_one_cases) simp_all
    ultimately show ?thesis using IH True by simp
  next
    case False
    then have "fst (detect_one l st) k = fst st k"
      by (cases st l rule: detect_one_cases) simp_all
    with IH False show ?thesis by (simp split: option.splits)
  qed
qed

lemma detectNew_twice_distinct:
  assumes "distinct (map external_id batch)"
  shows "detectNew (fst (detectNew store batch)) batch = (fst (detectNew store batch), [])"
proof -
  let ?s = "fst (detectNew store batch)"
  have "\<forall>l \<in> set batch. ?s (external_id l) = Some (content_hash l)"
  proof
    fix l assume l: "l \<in> set batch"
    have "find (\<lambda>l'. external_id l' = external_id l) batch = Some l"
      using assms l by (rule find_key_Some)
    then show "?s (external_id l) = Some (content_hash l)"
      using fold_detect_one_store [OF assms, of "(store, [])" "external_id l"]
      by (simp add: detectNew_def)
  qed
  then show ?thesis
    using fold_detect_one_unchanged [of batch "(?s, [])"] by (simp add: detectNew_def)
qed

text \<open>
  Claim C8. For the change detector modelled from the spec, over every sequence of
  batches and every store: a key the store has seen is never emitted as new again; a
  key is emitted as new at most once, so also when the same batch is processed twice;
  a listing whose content hash is the one stored is dropped with no event; and a
  second pass over a batch of distinct keys emits nothing.
\<close>

theorem change_detector_idempotent:
  "(k \<in> dom store \<longrightarrow> new_events k (snd (detect_batches store batches)) = []) \<and>
   length (new_events k (snd (detect_batches store batches))) \<le> 1 \<and>
   length (new_events k (snd (detect_batches store [batch, batch]))) \<le> 1 \<and>
   (store (external_id l) = Some (content_hash l) \<longrightarrow> detectNew store [l] = (store, [])) \<and>
   (distinct (map external_id batch) \<longrightarrow>
      snd (detect_batches store [batch, batch]) = snd (detectNew store batch))"
proof (intro conjI impI)
  show "new_events k (snd (detect_batches store batches)) = []" if "k \<in> dom store"
    using that by (simp add: detect_batches_concat detectNew_seen)
  show "length (new_events k (snd (detect_batches store batches))) \<le> 1"
    using detectNew_new_once [of k store "concat batches"]
    by (simp only: detect_batches_concat)
  show "length (new_events k (snd (detect_batches store [batch, batch]))) \<le> 1"
    using detectNew_new_once [of k store "concat [batch, batch]"]
    by (simp only: detect_batches_concat)
  show "detectNew store [l] = (store, [])" if "store (external_id l) = Some (content_hash l)"
    using that detect_one_unchanged [of "(store, [])" l] by (simp add: detectNew_def)
  show "snd (detect_batches store [batch, batch]) = snd (detectNew store batch)"
    if "distinct (map external_id batch)"
    using detectNew_twice_distinct [OF that, of store]
    by (simp add: detect_batches_concat detectNew_append)
qed

theorem change_detector_idempotent_witness:
  "''X123'' \<in> dom seen_scenario \<and>
   seen_scenario (external_id scenario_listing) = Some (content_hash scenario_listing) \<and>
   distinct (map external_id [scenario_listing]) \<and>
   snd (detect_batches seen_scenario [[scenario_listing], [scenario_listing]]) = [] \<and>
   snd (detect_batches Map.empty [[scenario_listing], [scenario_listing]]) =
     [New_listing scenario_listing] \<and>
   snd (detect_batches Map.empty [[scenario_listing], [scenario_listing\<lparr>price := 950\<rparr>]]) =
     [New_listing scenario_listing, Updated_listing (scenario_listing\<lparr>price := 950\<rparr>)]"
  using change_detector_idempotent
    [where k = "''X123''" and store = seen_scenario and batch = "[scenario_listing]"
       and batches = "[[scenario_listing], [scenario_listing]]" and l = scenario_listing]
  by (simp add: detectNew_def detect_one_def seen_scenario_def content_hash_def
      scenario_listing_def)

end
